theory Spec2Isabelle
  imports Complex_Main
begin

section \<open>Numbers, optional arguments and exceptions\<close>

text \<open>
  The formulas of \<^verbatim>\<open>fluids/core.py\<close> are modelled in exact arithmetic: a Python float
  is a \<^typ>\<open>real\<close>, so rounding, overflow, infinities and NaN are outside the model.
  An optional keyword argument is a \<^typ>\<open>real option\<close>; \<open>None\<close> is the argument left
  at its default \<^verbatim>\<open>None\<close>. An exception is the left summand of the result.
\<close>

datatype error =
    PyException string
  | ZeroDivisionError
  | TypeError

text \<open>Python's truth value of an optional number: \<^verbatim>\<open>None\<close> and \<^verbatim>\<open>0.0\<close> are false.\<close>

fun truthy :: "real option \<Rightarrow> bool" where
  "truthy None = False"
| "truthy (Some x) = (x \<noteq> 0)"

text \<open>True division of floats; a zero divisor raises.\<close>

definition fdiv :: "real \<Rightarrow> real \<Rightarrow> error + real" where
  "fdiv a b = (if b = 0 then Inl ZeroDivisionError else Inr (a / b))"

text \<open>Sequencing: an exception of the first computation ends the call.\<close>

definition on_ok :: "error + 'a \<Rightarrow> ('a \<Rightarrow> error + 'b) \<Rightarrow> error + 'b" where
  "on_ok r f = (case r of Inl e \<Rightarrow> Inl e | Inr v \<Rightarrow> f v)"

text \<open>
  Modelled from the spec: the constant \<^verbatim>\<open>g\<close> imported from \<^verbatim>\<open>fluids.constants\<close>, which is
  not among the sources; the spec gives standard gravity as 9.80665 m/s^2.
\<close>

definition g_std :: real where
  "g_std = 9.80665"

text \<open>An argument with a numeric default: \<open>None\<close> is the argument omitted by the caller.\<close>

fun or_default :: "real \<Rightarrow> real option \<Rightarrow> real" where
  "or_default d None = d"
| "or_default d (Some x) = x"

section \<open>Dimensionless groups with alternative input sets\<close>

text \<open>
  The messages of the exceptions raised when no input set is complete. A Python string
  literal continued over a line with a backslash keeps the indentation of its second line.
\<close>

definition viscosity_msg :: string where
  "viscosity_msg = ''Either density and viscosity, or dynamic viscosity,         is needed''"

definition diffusivity_msg :: string where
  "diffusivity_msg =
     ''Either heat capacity and thermal conductivity and        density, or thermal diffusivity is needed''"

definition Fourier_msg :: string where
  "Fourier_msg =
     ''Either heat capacity and thermal conductivity and density, or thermal diffusivity is needed''"

definition Schmidt_msg :: string where
  "Schmidt_msg = ''Insufficient information provided for Schmidt number calculation''"

definition Lewis_msg :: string where
  "Lewis_msg = ''Insufficient information provided for Le calculation''"

definition Prandtl_msg :: string where
  "Prandtl_msg = ''Insufficient information provided for Pr calculation''"

text \<open>
  In each function the test \<^verbatim>\<open>if rho and mu\<close> is Python's truth value of the arguments,
  and \<open>the\<close> reads an argument only under a test that found it truthy.
\<close>

definition Reynolds ::
  "real \<Rightarrow> real \<Rightarrow> real option \<Rightarrow> real option \<Rightarrow> real option \<Rightarrow> error + real" where
  "Reynolds V D rho mu nu =
     (if truthy rho \<and> truthy mu then
        on_ok (fdiv (the mu) (the rho)) (\<lambda>nu'. fdiv (V * D) nu')
      else if \<not> truthy nu then Inl (PyException viscosity_msg)
      else fdiv (V * D) (the nu))"

definition Peclet_heat ::
  "real \<Rightarrow> real \<Rightarrow> real option \<Rightarrow> real option \<Rightarrow> real option \<Rightarrow> real option \<Rightarrow> error + real" where
  "Peclet_heat V L rho Cp k alpha =
     (if truthy rho \<and> truthy Cp \<and> truthy k then
        on_ok (fdiv (the k) (the rho * the Cp)) (\<lambda>alpha'. fdiv (V * L) alpha')
      else if \<not> truthy alpha then Inl (PyException diffusivity_msg)
      else fdiv (V * L) (the alpha))"

definition Fourier_heat ::
  "real \<Rightarrow> real \<Rightarrow> real option \<Rightarrow> real option \<Rightarrow> real option \<Rightarrow> real option \<Rightarrow> error + real" where
  "Fourier_heat t L rho Cp k alpha =
     (if truthy rho \<and> truthy Cp \<and> truthy k then
        on_ok (fdiv (the k) (the rho * the Cp)) (\<lambda>alpha'. fdiv (t * alpha') (L\<^sup>2))
      else if \<not> truthy alpha then Inl (PyException Fourier_msg)
      else fdiv (t * the alpha) (L\<^sup>2))"

definition Graetz_heat ::
  "real \<Rightarrow> real \<Rightarrow> real \<Rightarrow> real option \<Rightarrow> real option \<Rightarrow> real option \<Rightarrow> real option
    \<Rightarrow> error + real" where
  "Graetz_heat V D x rho Cp k alpha =
     (if truthy rho \<and> truthy Cp \<and> truthy k then
        on_ok (fdiv (the k) (the rho * the Cp)) (\<lambda>alpha'. fdiv (V * D\<^sup>2) (x * alpha'))
      else if \<not> truthy alpha then Inl (PyException diffusivity_msg)
      else fdiv (V * D\<^sup>2) (x * the alpha))"

definition Schmidt ::
  "real \<Rightarrow> real option \<Rightarrow> real option \<Rightarrow> real option \<Rightarrow> error + real" where
  "Schmidt D mu nu rho =
     (if truthy rho \<and> truthy mu then fdiv (the mu) (the rho * D)
      else if truthy nu then fdiv (the nu) D
      else Inl (PyException Schmidt_msg))"

text \<open>
  \<^verbatim>\<open>Lewis\<close> declares \<^verbatim>\<open>D=None\<close>: the division by a \<^verbatim>\<open>D\<close> left at \<^verbatim>\<open>None\<close> is a
  \<^verbatim>\<open>TypeError\<close>.
\<close>

definition div_opt :: "real \<Rightarrow> real option \<Rightarrow> error + real" where
  "div_opt a D = (case D of None \<Rightarrow> Inl TypeError | Some d \<Rightarrow> fdiv a d)"

definition Lewis ::
  "real option \<Rightarrow> real option \<Rightarrow> real option \<Rightarrow> real option \<Rightarrow> real option \<Rightarrow> error + real" where
  "Lewis D alpha Cp k rho =
     (if truthy k \<and> truthy Cp \<and> truthy rho then
        on_ok (fdiv (the k) (the rho * the Cp)) (\<lambda>alpha'. div_opt alpha' D)
      else if truthy alpha then div_opt (the alpha) D
      else Inl (PyException Lewis_msg))"

definition Prandtl ::
  "real option \<Rightarrow> real option \<Rightarrow> real option \<Rightarrow> real option \<Rightarrow> real option \<Rightarrow> real option
    \<Rightarrow> error + real" where
  "Prandtl Cp k mu nu rho alpha =
     (if truthy k \<and> truthy Cp \<and> truthy mu then fdiv (the Cp * the mu) (the k)
      else if truthy nu \<and> truthy rho \<and> truthy Cp \<and> truthy k then
        fdiv (the nu * the rho * the Cp) (the k)
      else if truthy nu \<and> truthy alpha then fdiv (the nu) (the alpha)
      else Inl (PyException Prandtl_msg))"

text \<open>
  \<^verbatim>\<open>Grashof\<close> has the defaults \<^verbatim>\<open>T2=0\<close> and \<^verbatim>\<open>g=g\<close>: for these two arguments \<open>None\<close>
  is the argument omitted.
\<close>

definition Grashof ::
  "real \<Rightarrow> real \<Rightarrow> real \<Rightarrow> real option \<Rightarrow> real option \<Rightarrow> real option \<Rightarrow> real option
    \<Rightarrow> real option \<Rightarrow> error + real" where
  "Grashof L beta T1 T2 rho mu nu g =
     (let T2' = or_default 0 T2; g' = or_default g_std g in
      if truthy rho \<and> truthy mu then
        on_ok (fdiv (the mu) (the rho))
          (\<lambda>nu'. fdiv (g' * beta * \<bar>T2' - T1\<bar> * L ^ 3) (nu'\<^sup>2))
      else if \<not> truthy nu then Inl (PyException viscosity_msg)
      else fdiv (g' * beta * \<bar>T2' - T1\<bar> * L ^ 3) ((the nu)\<^sup>2))"

section \<open>Viscosity conversion\<close>

text \<open>
  \<^verbatim>\<open>nu_mu_converter\<close> ends with an \<^verbatim>\<open>elif\<close> that has no \<^verbatim>\<open>else\<close>: falling off the end
  returns Python's \<^verbatim>\<open>None\<close>, the result \<open>Inr None\<close> here. The required argument \<^verbatim>\<open>rho\<close>
  is tested for its truth value, so it is optional in the model.
\<close>

definition converter_msg :: string where
  "converter_msg = ''Inputs must be rho and one of mu and nu.''"

definition nu_mu_converter ::
  "real option \<Rightarrow> real option \<Rightarrow> real option \<Rightarrow> error + real option" where
  "nu_mu_converter rho mu nu =
     (if (truthy nu \<and> truthy mu) \<or> \<not> truthy rho \<or> (\<not> truthy nu \<and> \<not> truthy mu) then
        Inl (PyException converter_msg)
      else if truthy mu then on_ok (fdiv (the mu) (the rho)) (\<lambda>r. Inr (Some r))
      else if truthy nu then Inr (Some (the nu * the rho))
      else Inr None)"

section \<open>Gravity by latitude and height\<close>

definition gravity :: "real \<Rightarrow> real \<Rightarrow> real" where
  "gravity latitude H =
     (let lat = latitude * pi / 180 in
      9.780356 * (1 + 0.0052885 * (sin lat)\<^sup>2 - 0.0000059 * (sin (2 * lat))\<^sup>2)
        - 3.086 / 10 ^ 6 * H)"

section \<open>Froude numbers\<close>

text \<open>
  \<^verbatim>\<open>x ** 0.5\<close> of a negative float is a complex number in Python 3 (Python 2 raises a
  \<^verbatim>\<open>ValueError\<close> there), and arithmetic with a complex operand is complex. A value is
  therefore a float or a complex number.
\<close>

datatype pynum = PyFloat real | PyComplex complex

fun as_complex :: "pynum \<Rightarrow> complex" where
  "as_complex (PyFloat x) = complex_of_real x"
| "as_complex (PyComplex z) = z"

definition pow_half :: "real \<Rightarrow> pynum" where
  "pow_half x = (if x < 0 then PyComplex (Complex 0 (sqrt (- x))) else PyFloat (sqrt x))"

fun num_div :: "pynum \<Rightarrow> pynum \<Rightarrow> error + pynum" where
  "num_div (PyFloat a) (PyFloat b) =
     (if b = 0 then Inl ZeroDivisionError else Inr (PyFloat (a / b)))"
| "num_div a b =
     (if as_complex b = 0 then Inl ZeroDivisionError
      else Inr (PyComplex (as_complex a / as_complex b)))"

fun num_mul :: "pynum \<Rightarrow> pynum \<Rightarrow> pynum" where
  "num_mul (PyFloat a) (PyFloat b) = PyFloat (a * b)"
| "num_mul a b = PyComplex (as_complex a * as_complex b)"

text \<open>The arguments \<^verbatim>\<open>g\<close> default to standard gravity: \<open>None\<close> is the argument omitted.\<close>

definition Froude :: "real \<Rightarrow> real \<Rightarrow> real option \<Rightarrow> bool \<Rightarrow> error + pynum" where
  "Froude V L g squared =
     on_ok (num_div (PyFloat V) (pow_half (L * or_default g_std g)))
       (\<lambda>Fr. if squared then Inr (num_mul Fr Fr) else Inr Fr)"

definition Froude_densimetric ::
  "real \<Rightarrow> real \<Rightarrow> real \<Rightarrow> real \<Rightarrow> bool \<Rightarrow> real option \<Rightarrow> error + pynum" where
  "Froude_densimetric V L rho1 rho2 heavy g =
     (let rho3 = (if heavy then rho1 else rho2) in
      on_ok (num_div (PyFloat V) (pow_half (or_default g_std g * L)))
        (\<lambda>a. on_ok (fdiv rho3 (rho1 - rho2))
          (\<lambda>q. Inr (num_mul a (pow_half q)))))"

section \<open>Loss coefficient to pressure drop\<close>

definition dP_from_K :: "real \<Rightarrow> real \<Rightarrow> real \<Rightarrow> real" where
  "dP_from_K K rho V = K * 0.5 * rho * V * V"

section \<open>Temperature conversions\<close>

text \<open>
  Each conversion is applied to one scalar; \<^verbatim>\<open>np.asanyarray\<close> of a scalar leaves its
  value unchanged.
\<close>

definition zero_Celsius :: real where
  "zero_Celsius = 273.15"

definition C2K :: "real \<Rightarrow> real" where
  "C2K C = C + zero_Celsius"

definition K2C :: "real \<Rightarrow> real" where
  "K2C K = K - zero_Celsius"

definition F2C :: "real \<Rightarrow> real" where
  "F2C F = (F - 32.0) / 1.8"

definition C2F :: "real \<Rightarrow> real" where
  "C2F C = 1.8 * C + 32.0"

definition F2K :: "real \<Rightarrow> real" where
  "F2K F = (F - 32.0) / 1.8 + zero_Celsius"

definition K2F :: "real \<Rightarrow> real" where
  "K2F K = 1.8 * (K - zero_Celsius) + 32.0"

definition C2R :: "real \<Rightarrow> real" where
  "C2R C = 1.8 * (C + zero_Celsius)"

definition K2R :: "real \<Rightarrow> real" where
  "K2R K = 1.8 * K"

definition F2R :: "real \<Rightarrow> real" where
  "F2R F = F - 32.0 + 1.8 * zero_Celsius"

definition R2C :: "real \<Rightarrow> real" where
  "R2C Ra = Ra / 1.8 - zero_Celsius"

definition R2K :: "real \<Rightarrow> real" where
  "R2K Ra = Ra / 1.8"

definition R2F :: "real \<Rightarrow> real" where
  "R2F Ra = Ra - 1.8 * zero_Celsius + 32.0"

section \<open>Reading an exception's message\<close>

text \<open>\<open>mentions s w\<close>: the text \<open>w\<close> occurs in the message \<open>s\<close>.\<close>

fun starts_with :: "string \<Rightarrow> string \<Rightarrow> bool" where
  "starts_with s [] = True"
| "starts_with [] (c # w) = False"
| "starts_with (a # s) (c # w) = (a = c \<and> starts_with s w)"

fun mentions :: "string \<Rightarrow> string \<Rightarrow> bool" where
  "mentions [] w = (w = [])"
| "mentions (a # s) w = (starts_with (a # s) w \<or> mentions s w)"

section \<open>Properties\<close>

subsection \<open>What each route computes\<close>

lemma Reynolds_first:
  "rho \<noteq> 0 \<Longrightarrow> mu \<noteq> 0 \<Longrightarrow> Reynolds V D (Some rho) (Some mu) nu = Inr (V * D * rho / mu)"
  by (simp add: Reynolds_def fdiv_def on_ok_def)

lemma Reynolds_second:
  "\<not> (truthy rho \<and> truthy mu) \<Longrightarrow> nu \<noteq> 0 \<Longrightarrow> Reynolds V D rho mu (Some nu) = Inr (V * D / nu)"
  by (auto simp add: Reynolds_def fdiv_def)

lemma Peclet_heat_first:
  "rho \<noteq> 0 \<Longrightarrow> Cp \<noteq> 0 \<Longrightarrow> k \<noteq> 0 \<Longrightarrow>
   Peclet_heat V L (Some rho) (Some Cp) (Some k) alpha = Inr (V * L * rho * Cp / k)"
  by (simp add: Peclet_heat_def fdiv_def on_ok_def)

lemma Peclet_heat_second:
  "\<not> (truthy rho \<and> truthy Cp \<and> truthy k) \<Longrightarrow> alpha \<noteq> 0 \<Longrightarrow>
   Peclet_heat V L rho Cp k (Some alpha) = Inr (V * L / alpha)"
  by (auto simp add: Peclet_heat_def fdiv_def)

lemma Fourier_heat_first:
  "rho \<noteq> 0 \<Longrightarrow> Cp \<noteq> 0 \<Longrightarrow> k \<noteq> 0 \<Longrightarrow>
   Fourier_heat t L (Some rho) (Some Cp) (Some k) alpha = fdiv (t * (k / (rho * Cp))) (L\<^sup>2)"
  by (simp add: Fourier_heat_def fdiv_def on_ok_def)

lemma Fourier_heat_second:
  "\<not> (truthy rho \<and> truthy Cp \<and> truthy k) \<Longrightarrow> alpha \<noteq> 0 \<Longrightarrow>
   Fourier_heat t L rho Cp k (Some alpha) = fdiv (t * alpha) (L\<^sup>2)"
  by (auto simp add: Fourier_heat_def)

lemma Graetz_heat_first:
  "rho \<noteq> 0 \<Longrightarrow> Cp \<noteq> 0 \<Longrightarrow> k \<noteq> 0 \<Longrightarrow>
   Graetz_heat V D x (Some rho) (Some Cp) (Some k) alpha = fdiv (V * D\<^sup>2) (x * (k / (rho * Cp)))"
  by (simp add: Graetz_heat_def fdiv_def on_ok_def)

lemma Graetz_heat_second:
  "\<not> (truthy rho \<and> truthy Cp \<and> truthy k) \<Longrightarrow> alpha \<noteq> 0 \<Longrightarrow>
   Graetz_heat V D x rho Cp k (Some alpha) = fdiv (V * D\<^sup>2) (x * alpha)"
  by (auto simp add: Graetz_heat_def)

lemma Schmidt_first:
  "rho \<noteq> 0 \<Longrightarrow> mu \<noteq> 0 \<Longrightarrow> Schmidt D (Some mu) nu (Some rho) = fdiv mu (rho * D)"
  by (simp add: Schmidt_def)

lemma Schmidt_second:
  "\<not> (truthy rho \<and> truthy mu) \<Longrightarrow> nu \<noteq> 0 \<Longrightarrow> Schmidt D mu (Some nu) rho = fdiv nu D"
  by (auto simp add: Schmidt_def)

lemma Lewis_first:
  "rho \<noteq> 0 \<Longrightarrow> Cp \<noteq> 0 \<Longrightarrow> k \<noteq> 0 \<Longrightarrow>
   Lewis D alpha (Some Cp) (Some k) (Some rho) = div_opt (k / (rho * Cp)) D"
  by (simp add: Lewis_def fdiv_def on_ok_def)

lemma Lewis_second:
  "\<not> (truthy k \<and> truthy Cp \<and> truthy rho) \<Longrightarrow> alpha \<noteq> 0 \<Longrightarrow>
   Lewis D (Some alpha) Cp k rho = div_opt alpha D"
  by (auto simp add: Lewis_def)

lemma Prandtl_first:
  "Cp \<noteq> 0 \<Longrightarrow> k \<noteq> 0 \<Longrightarrow> mu \<noteq> 0 \<Longrightarrow>
   Prandtl (Some Cp) (Some k) (Some mu) nu rho alpha = Inr (Cp * mu / k)"
  by (simp add: Prandtl_def fdiv_def)

lemma Prandtl_second:
  "\<not> truthy mu \<Longrightarrow> Cp \<noteq> 0 \<Longrightarrow> k \<noteq> 0 \<Longrightarrow> nu \<noteq> 0 \<Longrightarrow> rho \<noteq> 0 \<Longrightarrow>
   Prandtl (Some Cp) (Some k) mu (Some nu) (Some rho) alpha = Inr (nu * rho * Cp / k)"
  by (simp add: Prandtl_def fdiv_def)

lemma Prandtl_third:
  "\<not> (truthy k \<and> truthy Cp \<and> truthy mu) \<Longrightarrow> \<not> (truthy rho \<and> truthy Cp \<and> truthy k) \<Longrightarrow>
   nu \<noteq> 0 \<Longrightarrow> alpha \<noteq> 0 \<Longrightarrow>
   Prandtl Cp k mu (Some nu) rho (Some alpha) = Inr (nu / alpha)"
  by (auto simp add: Prandtl_def fdiv_def)

lemma Grashof_first:
  "rho \<noteq> 0 \<Longrightarrow> mu \<noteq> 0 \<Longrightarrow>
   Grashof L beta T1 T2 (Some rho) (Some mu) nu g =
     Inr (or_default g_std g * beta * \<bar>or_default 0 T2 - T1\<bar> * L ^ 3 * rho\<^sup>2 / mu\<^sup>2)"
  by (simp add: Grashof_def fdiv_def on_ok_def Let_def power_divide)

lemma Grashof_second:
  "\<not> (truthy rho \<and> truthy mu) \<Longrightarrow> nu \<noteq> 0 \<Longrightarrow>
   Grashof L beta T1 T2 rho mu (Some nu) g =
     Inr (or_default g_std g * beta * \<bar>or_default 0 T2 - T1\<bar> * L ^ 3 / nu\<^sup>2)"
  by (auto simp add: Grashof_def fdiv_def Let_def)


subsection \<open>The branches of the viscosity conversion\<close>

lemma nu_mu_converter_raises_iff:
  "isl (nu_mu_converter rho' mu' nu') \<longleftrightarrow>
     (truthy mu' \<and> truthy nu') \<or> \<not> truthy rho' \<or> (\<not> truthy mu' \<and> \<not> truthy nu')"
  by (cases rho'; cases mu'; cases nu') (simp_all add: nu_mu_converter_def fdiv_def on_ok_def)

lemma nu_mu_converter_raises:
  "isl (nu_mu_converter rho' mu' nu') \<Longrightarrow>
     nu_mu_converter rho' mu' nu' = Inl (PyException converter_msg)"
proof -
  assume "isl (nu_mu_converter rho' mu' nu')"
  then have "(truthy nu' \<and> truthy mu') \<or> \<not> truthy rho' \<or> (\<not> truthy nu' \<and> \<not> truthy mu')"
    unfolding nu_mu_converter_raises_iff by blast
  then show ?thesis
    unfolding nu_mu_converter_def by (rule if_P)
qed

lemma nu_mu_converter_mu:
  "rho \<noteq> 0 \<Longrightarrow> mu \<noteq> 0 \<Longrightarrow> \<not> truthy nu' \<Longrightarrow>
     nu_mu_converter (Some rho) (Some mu) nu' = Inr (Some (mu / rho))"
  by (simp add: nu_mu_converter_def fdiv_def on_ok_def)

lemma nu_mu_converter_nu:
  "rho \<noteq> 0 \<Longrightarrow> nu \<noteq> 0 \<Longrightarrow> \<not> truthy mu' \<Longrightarrow>
     nu_mu_converter (Some rho) mu' (Some nu) = Inr (Some (nu * rho))"
  by (simp add: nu_mu_converter_def)

lemma nu_mu_converter_both:
  "mu \<noteq> 0 \<Longrightarrow> nu \<noteq> 0 \<Longrightarrow>
     nu_mu_converter rho' (Some mu) (Some nu) = Inl (PyException converter_msg)"
  by (simp add: nu_mu_converter_def)

lemma nu_mu_converter_no_rho:
  "\<not> truthy rho' \<Longrightarrow> nu_mu_converter rho' mu' nu' = Inl (PyException converter_msg)"
  by (simp add: nu_mu_converter_def)

subsection \<open>Square roots and the Froude numbers\<close>

lemma pow_half_as_complex: "as_complex (pow_half x) = csqrt (complex_of_real x)"
  by (simp add: pow_half_def complex_eq_iff)

lemma as_complex_num_mul: "as_complex (num_mul a b) = as_complex a * as_complex b"
  by (cases a; cases b) simp_all

lemma div_pow_half_pos:
  "0 < x \<Longrightarrow> on_ok (num_div (PyFloat V) (pow_half x)) f = f (PyFloat (V / sqrt x))"
  by (simp add: pow_half_def on_ok_def)

lemma Froude_pos:
  "0 < L * or_default g_std g \<Longrightarrow>
     Froude V L g squared =
       Inr (PyFloat (if squared then (V / sqrt (L * or_default g_std g))\<^sup>2
                     else V / sqrt (L * or_default g_std g)))"
proof -
  assume "0 < L * or_default g_std g"
  then have "on_ok (num_div (PyFloat V) (pow_half (L * or_default g_std g))) f =
      f (PyFloat (V / sqrt (L * or_default g_std g)))" for f :: "pynum \<Rightarrow> error + pynum"
    by (rule div_pow_half_pos)
  then show ?thesis
    by (simp add: Froude_def power2_eq_square)
qed

lemma Froude_example1:
  "\<exists>r. Froude 1.83 2 (Some 1.63) False = Inr (PyFloat r) \<and> 1.01354 \<le> r \<and> r < 1.01355"
proof -
  define s :: real where "s = sqrt 3.26"
  have u: "s \<le> 1.80555" unfolding s_def by (rule real_le_lsqrt) (simp_all add: power2_eq_square)
  have l: "1.80554 < s" unfolding s_def by (rule real_less_rsqrt) (simp add: power2_eq_square)
  have pos: "0 < s" using l by simp
  have "Froude 1.83 2 (Some 1.63) False = Inr (PyFloat (1.83 / s))"
    using Froude_pos [of 2 "Some 1.63" "1.83" False] by (simp add: s_def)
  moreover have "1.01354 \<le> 1.83 / s" using u pos by (simp add: pos_le_divide_eq)
  moreover have "1.83 / s < 1.01355" using l pos by (simp add: pos_divide_less_eq)
  ultimately show ?thesis by blast
qed

lemma Froude_example2:
  "\<exists>r. Froude 1.83 2 None True = Inr (PyFloat r) \<and> 0.17074 \<le> r \<and> r < 0.17075"
proof -
  have "Froude 1.83 2 None True = Inr (PyFloat ((1.83 / sqrt (2 * g_std))\<^sup>2))"
    using Froude_pos [of 2 None "1.83" True] by (simp add: g_std_def)
  moreover have "(1.83 / sqrt (2 * g_std))\<^sup>2 = 1.83\<^sup>2 / (2 * g_std)"
    by (simp add: power_divide g_std_def)
  moreover have "0.17074 \<le> (1.83::real)\<^sup>2 / (2 * g_std)" "(1.83::real)\<^sup>2 / (2 * g_std) < 0.17075"
    by (simp_all add: g_std_def power2_eq_square)
  ultimately show ?thesis by simp
qed

lemma Froude_densimetric_value:
  assumes "0 < or_default g_std g * L" and "rho1 \<noteq> rho2"
  shows "Froude_densimetric V L rho1 rho2 heavy g =
    Inr (num_mul (PyFloat (V / sqrt (or_default g_std g * L)))
      (pow_half ((if heavy then rho1 else rho2) / (rho1 - rho2))))"
proof -
  have "on_ok (num_div (PyFloat V) (pow_half (or_default g_std g * L))) f =
      f (PyFloat (V / sqrt (or_default g_std g * L)))" for f :: "pynum \<Rightarrow> error + pynum"
    using assms(1) by (rule div_pow_half_pos)
  then show ?thesis
    using assms(2) by (simp add: Froude_densimetric_def Let_def fdiv_def on_ok_def)
qed

subsection \<open>Properties of the specification\<close>

text \<open>
  C1 (as amended). Routes are tried in the documented order: whenever the inputs of the
  first-listed route are all supplied and truthy, its formula determines the result,
  whatever is supplied for the later routes, so the first route's inputs in isolation
  give the same result as all inputs together. The inputs of a later route in isolation
  give that result when they are consistent with the first route's
  (\<open>nu = mu / rho\<close>, \<open>alpha = k / (rho * Cp)\<close>). For \<^verbatim>\<open>Prandtl\<close> the second route
  likewise precedes the third.
\<close>

theorem route_priority:
  "(rho \<noteq> 0 \<and> mu \<noteq> 0 \<longrightarrow>
      Reynolds V D (Some rho) (Some mu) nu' = Inr (V * D * rho / mu) \<and>
      Reynolds V D (Some rho) (Some mu) None = Reynolds V D (Some rho) (Some mu) nu' \<and>
      Schmidt D (Some mu) nu' (Some rho) = fdiv mu (rho * D) \<and>
      Schmidt D (Some mu) None (Some rho) = Schmidt D (Some mu) nu' (Some rho) \<and>
      Grashof L beta T1 T2 (Some rho) (Some mu) nu' g =
        Inr (or_default g_std g * beta * \<bar>or_default 0 T2 - T1\<bar> * L ^ 3 * rho\<^sup>2 / mu\<^sup>2) \<and>
      Grashof L beta T1 T2 (Some rho) (Some mu) None g =
        Grashof L beta T1 T2 (Some rho) (Some mu) nu' g) \<and>
   (rho \<noteq> 0 \<and> Cp \<noteq> 0 \<and> k \<noteq> 0 \<longrightarrow>
      Peclet_heat V L (Some rho) (Some Cp) (Some k) alpha' = Inr (V * L * rho * Cp / k) \<and>
      Peclet_heat V L (Some rho) (Some Cp) (Some k) None =
        Peclet_heat V L (Some rho) (Some Cp) (Some k) alpha' \<and>
      Fourier_heat t L (Some rho) (Some Cp) (Some k) alpha' = fdiv (t * (k / (rho * Cp))) (L\<^sup>2) \<and>
      Fourier_heat t L (Some rho) (Some Cp) (Some k) None =
        Fourier_heat t L (Some rho) (Some Cp) (Some k) alpha' \<and>
      Graetz_heat V D x (Some rho) (Some Cp) (Some k) alpha' =
        fdiv (V * D\<^sup>2) (x * (k / (rho * Cp))) \<and>
      Graetz_heat V D x (Some rho) (Some Cp) (Some k) None =
        Graetz_heat V D x (Some rho) (Some Cp) (Some k) alpha' \<and>
      Lewis D' alpha' (Some Cp) (Some k) (Some rho) = div_opt (k / (rho * Cp)) D' \<and>
      Lewis D' None (Some Cp) (Some k) (Some rho) = Lewis D' alpha' (Some Cp) (Some k) (Some rho)) \<and>
   (Cp \<noteq> 0 \<and> k \<noteq> 0 \<and> mu \<noteq> 0 \<longrightarrow>
      Prandtl (Some Cp) (Some k) (Some mu) nu' rho' alpha' = Inr (Cp * mu / k) \<and>
      Prandtl (Some Cp) (Some k) (Some mu) None None None =
        Prandtl (Some Cp) (Some k) (Some mu) nu' rho' alpha') \<and>
   (\<not> truthy mu' \<and> Cp \<noteq> 0 \<and> k \<noteq> 0 \<and> nu \<noteq> 0 \<and> rho \<noteq> 0 \<longrightarrow>
      Prandtl (Some Cp) (Some k) mu' (Some nu) (Some rho) alpha' = Inr (nu * rho * Cp / k)) \<and>
   (rho \<noteq> 0 \<and> mu \<noteq> 0 \<and> nu = mu / rho \<longrightarrow>
      Reynolds V D None None (Some nu) = Reynolds V D (Some rho) (Some mu) (Some nu) \<and>
      Schmidt D None (Some nu) None = Schmidt D (Some mu) (Some nu) (Some rho) \<and>
      Grashof L beta T1 T2 None None (Some nu) g =
        Grashof L beta T1 T2 (Some rho) (Some mu) (Some nu) g) \<and>
   (rho \<noteq> 0 \<and> Cp \<noteq> 0 \<and> k \<noteq> 0 \<and> alpha = k / (rho * Cp) \<longrightarrow>
      Peclet_heat V L None None None (Some alpha) =
        Peclet_heat V L (Some rho) (Some Cp) (Some k) (Some alpha) \<and>
      Fourier_heat t L None None None (Some alpha) =
        Fourier_heat t L (Some rho) (Some Cp) (Some k) (Some alpha) \<and>
      Graetz_heat V D x None None None (Some alpha) =
        Graetz_heat V D x (Some rho) (Some Cp) (Some k) (Some alpha) \<and>
      Lewis D' (Some alpha) None None None =
        Lewis D' (Some alpha) (Some Cp) (Some k) (Some rho)) \<and>
   (rho \<noteq> 0 \<and> Cp \<noteq> 0 \<and> k \<noteq> 0 \<and> mu \<noteq> 0 \<and> nu = mu / rho \<and> alpha = k / (rho * Cp) \<longrightarrow>
      Prandtl (Some Cp) (Some k) None (Some nu) (Some rho) None =
        Prandtl (Some Cp) (Some k) (Some mu) (Some nu) (Some rho) (Some alpha) \<and>
      Prandtl None None None (Some nu) None (Some alpha) =
        Prandtl (Some Cp) (Some k) (Some mu) (Some nu) (Some rho) (Some alpha))"
proof (intro conjI impI)
  assume h: "rho \<noteq> 0 \<and> Cp \<noteq> 0 \<and> k \<noteq> 0 \<and> mu \<noteq> 0 \<and> nu = mu / rho \<and> alpha = k / (rho * Cp)"
  then have nz: "nu \<noteq> 0" "alpha \<noteq> 0" by simp_all
  show "Prandtl (Some Cp) (Some k) None (Some nu) (Some rho) None =
        Prandtl (Some Cp) (Some k) (Some mu) (Some nu) (Some rho) (Some alpha)"
    using h nz by (simp add: Prandtl_first Prandtl_second)
  show "Prandtl None None None (Some nu) None (Some alpha) =
        Prandtl (Some Cp) (Some k) (Some mu) (Some nu) (Some rho) (Some alpha)"
    using h nz by (simp add: Prandtl_first Prandtl_third)
next
  assume h: "rho \<noteq> 0 \<and> Cp \<noteq> 0 \<and> k \<noteq> 0 \<and> alpha = k / (rho * Cp)"
  then have nz: "alpha \<noteq> 0" by simp
  show "Peclet_heat V L None None None (Some alpha) =
        Peclet_heat V L (Some rho) (Some Cp) (Some k) (Some alpha)"
    using h nz by (simp add: Peclet_heat_first Peclet_heat_second)
  show "Fourier_heat t L None None None (Some alpha) =
        Fourier_heat t L (Some rho) (Some Cp) (Some k) (Some alpha)"
    using h nz by (simp add: Fourier_heat_first Fourier_heat_second)
  show "Graetz_heat V D x None None None (Some alpha) =
        Graetz_heat V D x (Some rho) (Some Cp) (Some k) (Some alpha)"
    using h nz by (simp add: Graetz_heat_first Graetz_heat_second)
  show "Lewis D' (Some alpha) None None None =
        Lewis D' (Some alpha) (Some Cp) (Some k) (Some rho)"
    using h nz by (simp add: Lewis_first Lewis_second)
next
  assume h: "rho \<noteq> 0 \<and> mu \<noteq> 0 \<and> nu = mu / rho"
  then have nz: "nu \<noteq> 0" by simp
  show "Reynolds V D None None (Some nu) = Reynolds V D (Some rho) (Some mu) (Some nu)"
    using h nz by (simp add: Reynolds_first Reynolds_second)
  show "Schmidt D None (Some nu) None = Schmidt D (Some mu) (Some nu) (Some rho)"
    using h nz by (simp add: Schmidt_first Schmidt_second fdiv_def)
  show "Grashof L beta T1 T2 None None (Some nu) g =
        Grashof L beta T1 T2 (Some rho) (Some mu) (Some nu) g"
    using h nz by (simp add: Grashof_first Grashof_second power_divide)
qed (simp_all add: Reynolds_first Schmidt_first Grashof_first Peclet_heat_first
       Fourier_heat_first Graetz_heat_first Lewis_first Prandtl_first Prandtl_second)

theorem route_priority_witness:
  "Reynolds 2 3 (Some 4) (Some 8) (Some 5) = Inr 3 \<and>
   Reynolds 2 3 (Some 4) (Some 8) None = Reynolds 2 3 (Some 4) (Some 8) (Some 5) \<and>
   Reynolds 2 3 None None (Some 2) = Reynolds 2 3 (Some 4) (Some 8) (Some 2) \<and>
   Peclet_heat 2 3 (Some 4) (Some 2) (Some 16) (Some 7) = Inr 3 \<and>
   Peclet_heat 2 3 None None None (Some 2) = Peclet_heat 2 3 (Some 4) (Some 2) (Some 16) (Some 2) \<and>
   Prandtl (Some 2) (Some 16) (Some 8) (Some 5) (Some 9) (Some 7) = Inr 1 \<and>
   Prandtl (Some 2) (Some 16) None (Some 2) (Some 4) (Some 7) = Inr 1 \<and>
   Prandtl None None None (Some 2) None (Some 2) =
     Prandtl (Some 2) (Some 16) (Some 8) (Some 2) (Some 4) (Some 2)"
  using route_priority [where rho = 4 and mu = 8 and nu' = "Some 5" and V = 2 and D = 3
      and Cp = 2 and k = 16 and alpha' = "Some 7" and L = 3 and rho' = "Some 9"
      and mu' = None and nu = 2 and alpha = 2]
  by simp

text \<open>
  The claim as written fails for a later route: the \<^verbatim>\<open>nu\<close> route alone and the call with
  every input differ when \<open>nu\<close> is not \<open>mu / rho\<close>.
\<close>

theorem route_isolation_counterexample:
  "Reynolds 1 1 None None (Some 2) = Inr (1 / 2) \<and>
   Reynolds 1 1 (Some 1) (Some 1) (Some 2) = Inr 1 \<and>
   Reynolds 1 1 None None (Some 2) \<noteq> Reynolds 1 1 (Some 1) (Some 1) (Some 2)"
  by (simp add: Reynolds_def fdiv_def on_ok_def)

text \<open>
  C2. Availability of a route is the truth value of its inputs, so an input supplied as
  \<open>0.0\<close> makes its route unavailable: in every multi-route function a route with an
  input equal to zero is skipped, and the call goes on to the next route or, when none is
  left, to the failure branch. For all \<open>V\<close>, \<open>D\<close>, \<open>mu\<close> and nonzero \<open>nu\<close>,
  \<^verbatim>\<open>Reynolds(V, D, rho=0.0, mu=mu, nu=nu)\<close> is \<open>V * D / nu\<close>, and
  \<^verbatim>\<open>Peclet_heat(V, L, rho=0.0, Cp=Cp, k=k)\<close> without \<^verbatim>\<open>alpha\<close> fails.
\<close>

theorem zero_input_skips_route:
  "((rho' = Some 0 \<or> mu' = Some 0) \<longrightarrow>
      Reynolds V D rho' mu' nu' =
        (if truthy nu' then fdiv (V * D) (the nu') else Inl (PyException viscosity_msg)) \<and>
      Schmidt D mu' nu' rho' =
        (if truthy nu' then fdiv (the nu') D else Inl (PyException Schmidt_msg)) \<and>
      Grashof L beta T1 T2 rho' mu' nu' g =
        (if truthy nu'
         then fdiv (or_default g_std g * beta * \<bar>or_default 0 T2 - T1\<bar> * L ^ 3) ((the nu')\<^sup>2)
         else Inl (PyException viscosity_msg))) \<and>
   ((rho' = Some 0 \<or> Cp' = Some 0 \<or> k' = Some 0) \<longrightarrow>
      Peclet_heat V L rho' Cp' k' alpha' =
        (if truthy alpha' then fdiv (V * L) (the alpha') else Inl (PyException diffusivity_msg)) \<and>
      Fourier_heat t L rho' Cp' k' alpha' =
        (if truthy alpha' then fdiv (t * the alpha') (L\<^sup>2) else Inl (PyException Fourier_msg)) \<and>
      Graetz_heat V D x rho' Cp' k' alpha' =
        (if truthy alpha' then fdiv (V * D\<^sup>2) (x * the alpha')
         else Inl (PyException diffusivity_msg)) \<and>
      Lewis D' alpha' Cp' k' rho' =
        (if truthy alpha' then div_opt (the alpha') D' else Inl (PyException Lewis_msg))) \<and>
   ((Cp' = Some 0 \<or> k' = Some 0) \<longrightarrow>
      Prandtl Cp' k' mu' nu' rho' alpha' =
        (if truthy nu' \<and> truthy alpha' then fdiv (the nu') (the alpha')
         else Inl (PyException Prandtl_msg))) \<and>
   (mu' = Some 0 \<longrightarrow>
      Prandtl Cp' k' mu' nu' rho' alpha' =
        (if truthy nu' \<and> truthy rho' \<and> truthy Cp' \<and> truthy k'
         then fdiv (the nu' * the rho' * the Cp') (the k')
         else if truthy nu' \<and> truthy alpha' then fdiv (the nu') (the alpha')
         else Inl (PyException Prandtl_msg))) \<and>
   (\<not> (truthy k' \<and> truthy Cp' \<and> truthy mu') \<and> rho' = Some 0 \<longrightarrow>
      Prandtl Cp' k' mu' nu' rho' alpha' =
        (if truthy nu' \<and> truthy alpha' then fdiv (the nu') (the alpha')
         else Inl (PyException Prandtl_msg))) \<and>
   (\<not> (truthy k' \<and> truthy Cp' \<and> truthy mu') \<and>
    (nu' = Some 0 \<or> (alpha' = Some 0 \<and> \<not> (truthy rho' \<and> truthy Cp' \<and> truthy k'))) \<longrightarrow>
      Prandtl Cp' k' mu' nu' rho' alpha' = Inl (PyException Prandtl_msg)) \<and>
   (\<not> (truthy rho' \<and> truthy mu') \<and> nu' = Some 0 \<longrightarrow>
      Reynolds V D rho' mu' nu' = Inl (PyException viscosity_msg) \<and>
      Schmidt D mu' nu' rho' = Inl (PyException Schmidt_msg) \<and>
      Grashof L beta T1 T2 rho' mu' nu' g = Inl (PyException viscosity_msg)) \<and>
   (\<not> (truthy rho' \<and> truthy Cp' \<and> truthy k') \<and> alpha' = Some 0 \<longrightarrow>
      Peclet_heat V L rho' Cp' k' alpha' = Inl (PyException diffusivity_msg) \<and>
      Fourier_heat t L rho' Cp' k' alpha' = Inl (PyException Fourier_msg) \<and>
      Graetz_heat V D x rho' Cp' k' alpha' = Inl (PyException diffusivity_msg) \<and>
      Lewis D' alpha' Cp' k' rho' = Inl (PyException Lewis_msg)) \<and>
   (nu \<noteq> 0 \<longrightarrow> Reynolds V D (Some 0) mu' (Some nu) = Inr (V * D / nu)) \<and>
   Peclet_heat V L (Some 0) Cp' k' None = Inl (PyException diffusivity_msg)"
proof (intro conjI impI)
  assume "rho' = Some 0 \<or> mu' = Some 0"
  then have na: "\<not> (truthy rho' \<and> truthy mu')" by auto
  show "Reynolds V D rho' mu' nu' =
        (if truthy nu' then fdiv (V * D) (the nu') else Inl (PyException viscosity_msg))"
    using na by (auto simp add: Reynolds_def)
  show "Schmidt D mu' nu' rho' =
        (if truthy nu' then fdiv (the nu') D else Inl (PyException Schmidt_msg))"
    using na by (auto simp add: Schmidt_def)
  show "Grashof L beta T1 T2 rho' mu' nu' g =
        (if truthy nu'
         then fdiv (or_default g_std g * beta * \<bar>or_default 0 T2 - T1\<bar> * L ^ 3) ((the nu')\<^sup>2)
         else Inl (PyException viscosity_msg))"
    using na by (auto simp add: Grashof_def Let_def)
next
  assume "rho' = Some 0 \<or> Cp' = Some 0 \<or> k' = Some 0"
  then have na: "\<not> (truthy rho' \<and> truthy Cp' \<and> truthy k')" by auto
  show "Peclet_heat V L rho' Cp' k' alpha' =
        (if truthy alpha' then fdiv (V * L) (the alpha') else Inl (PyException diffusivity_msg))"
    using na by (auto simp add: Peclet_heat_def)
  show "Fourier_heat t L rho' Cp' k' alpha' =
        (if truthy alpha' then fdiv (t * the alpha') (L\<^sup>2) else Inl (PyException Fourier_msg))"
    using na by (auto simp add: Fourier_heat_def)
  show "Graetz_heat V D x rho' Cp' k' alpha' =
        (if truthy alpha' then fdiv (V * D\<^sup>2) (x * the alpha')
         else Inl (PyException diffusivity_msg))"
    using na by (auto simp add: Graetz_heat_def)
  show "Lewis D' alpha' Cp' k' rho' =
        (if truthy alpha' then div_opt (the alpha') D' else Inl (PyException Lewis_msg))"
    using na by (auto simp add: Lewis_def)
next
  assume "Cp' = Some 0 \<or> k' = Some 0"
  then have "\<not> (truthy Cp' \<and> truthy k')" by auto
  then show "Prandtl Cp' k' mu' nu' rho' alpha' =
        (if truthy nu' \<and> truthy alpha' then fdiv (the nu') (the alpha')
         else Inl (PyException Prandtl_msg))"
    by (auto simp add: Prandtl_def)
next
  assume "mu' = Some 0"
  then show "Prandtl Cp' k' mu' nu' rho' alpha' =
        (if truthy nu' \<and> truthy rho' \<and> truthy Cp' \<and> truthy k'
         then fdiv (the nu' * the rho' * the Cp') (the k')
         else if truthy nu' \<and> truthy alpha' then fdiv (the nu') (the alpha')
         else Inl (PyException Prandtl_msg))"
    by (simp add: Prandtl_def)
next
  assume "\<not> (truthy k' \<and> truthy Cp' \<and> truthy mu') \<and> rho' = Some 0"
  then show "Prandtl Cp' k' mu' nu' rho' alpha' =
        (if truthy nu' \<and> truthy alpha' then fdiv (the nu') (the alpha')
         else Inl (PyException Prandtl_msg))"
    by (auto simp add: Prandtl_def)
next
  assume "\<not> (truthy k' \<and> truthy Cp' \<and> truthy mu') \<and>
      (nu' = Some 0 \<or> (alpha' = Some 0 \<and> \<not> (truthy rho' \<and> truthy Cp' \<and> truthy k')))"
  then show "Prandtl Cp' k' mu' nu' rho' alpha' = Inl (PyException Prandtl_msg)"
    by (auto simp add: Prandtl_def)
next
  assume h: "\<not> (truthy rho' \<and> truthy mu') \<and> nu' = Some 0"
  show "Reynolds V D rho' mu' nu' = Inl (PyException viscosity_msg)"
    using h by (auto simp add: Reynolds_def)
  show "Schmidt D mu' nu' rho' = Inl (PyException Schmidt_msg)"
    using h by (auto simp add: Schmidt_def)
  show "Grashof L beta T1 T2 rho' mu' nu' g = Inl (PyException viscosity_msg)"
    using h by (auto simp add: Grashof_def Let_def)
next
  assume h: "\<not> (truthy rho' \<and> truthy Cp' \<and> truthy k') \<and> alpha' = Some 0"
  show "Peclet_heat V L rho' Cp' k' alpha' = Inl (PyException diffusivity_msg)"
    using h by (auto simp add: Peclet_heat_def)
  show "Fourier_heat t L rho' Cp' k' alpha' = Inl (PyException Fourier_msg)"
    using h by (auto simp add: Fourier_heat_def)
  show "Graetz_heat V D x rho' Cp' k' alpha' = Inl (PyException diffusivity_msg)"
    using h by (auto simp add: Graetz_heat_def)
  show "Lewis D' alpha' Cp' k' rho' = Inl (PyException Lewis_msg)"
    using h by (auto simp add: Lewis_def)
next
  assume "nu \<noteq> 0"
  then show "Reynolds V D (Some 0) mu' (Some nu) = Inr (V * D / nu)"
    by (simp add: Reynolds_def fdiv_def)
next
  show "Peclet_heat V L (Some 0) Cp' k' None = Inl (PyException diffusivity_msg)"
    by (simp add: Peclet_heat_def)
qed

theorem zero_input_skips_route_witness:
  "Reynolds 2 3 (Some 0) (Some 8) (Some 5) = Inr (6 / 5) \<and>
   Schmidt 3 (Some 8) (Some 5) (Some 0) = Inr (5 / 3) \<and>
   Peclet_heat 2 3 (Some 0) (Some 2) (Some 16) (Some 3) = Inr 2 \<and>
   Peclet_heat 2 3 (Some 0) (Some 2) (Some 16) None = Inl (PyException diffusivity_msg) \<and>
   Prandtl (Some 0) (Some 16) (Some 8) (Some 5) (Some 0) (Some 3) = Inr (5 / 3)"
  using zero_input_skips_route [where rho' = "Some 0" and mu' = "Some 8" and nu' = "Some 5"
      and V = 2 and D = 3 and Cp' = "Some 0" and k' = "Some 16" and alpha' = "Some 3" and L = 3
      and nu = 5]
    zero_input_skips_route [where rho' = "Some 0" and Cp' = "Some 2" and k' = "Some 16"
      and alpha' = "Some 3" and V = 2 and L = 3]
  by (simp add: fdiv_def)

text \<open>
  C3 (as amended). In every multi-route function, when no route is available (each
  route has an input that is absent or zero), the call raises a plain \<^verbatim>\<open>Exception\<close>
  with a fixed message. The message of \<^verbatim>\<open>Reynolds\<close> and \<^verbatim>\<open>Grashof\<close> names density and
  viscosity, that of \<^verbatim>\<open>Peclet_heat\<close>, \<^verbatim>\<open>Fourier_heat\<close> and \<^verbatim>\<open>Graetz_heat\<close> names heat
  capacity, thermal conductivity, density and thermal diffusivity; the messages of
  \<^verbatim>\<open>Schmidt\<close>, \<^verbatim>\<open>Lewis\<close> and \<^verbatim>\<open>Prandtl\<close> say only that the information is insufficient.
\<close>

theorem no_route_raises:
  "(\<not> (truthy rho \<and> truthy mu) \<and> \<not> truthy nu \<longrightarrow>
      Reynolds V D rho mu nu = Inl (PyException viscosity_msg) \<and>
      Grashof L beta T1 T2 rho mu nu g = Inl (PyException viscosity_msg) \<and>
      Schmidt D mu nu rho = Inl (PyException Schmidt_msg)) \<and>
   (\<not> (truthy rho \<and> truthy Cp \<and> truthy k) \<and> \<not> truthy alpha \<longrightarrow>
      Peclet_heat V L rho Cp k alpha = Inl (PyException diffusivity_msg) \<and>
      Fourier_heat t L rho Cp k alpha = Inl (PyException Fourier_msg) \<and>
      Graetz_heat V D x rho Cp k alpha = Inl (PyException diffusivity_msg) \<and>
      Lewis D' alpha Cp k rho = Inl (PyException Lewis_msg)) \<and>
   (\<not> (truthy k \<and> truthy Cp \<and> truthy mu) \<and>
    \<not> (truthy nu \<and> truthy rho \<and> truthy Cp \<and> truthy k) \<and>
    \<not> (truthy nu \<and> truthy alpha) \<longrightarrow>
      Prandtl Cp k mu nu rho alpha = Inl (PyException Prandtl_msg)) \<and>
   mentions viscosity_msg ''density and viscosity'' \<and>
   mentions viscosity_msg ''dynamic viscosity'' \<and>
   mentions diffusivity_msg ''heat capacity'' \<and>
   mentions diffusivity_msg ''thermal conductivity'' \<and>
   mentions diffusivity_msg ''density'' \<and>
   mentions diffusivity_msg ''thermal diffusivity'' \<and>
   mentions Fourier_msg ''heat capacity'' \<and>
   mentions Fourier_msg ''thermal conductivity'' \<and>
   mentions Fourier_msg ''density'' \<and>
   mentions Fourier_msg ''thermal diffusivity''"
proof (intro conjI impI)
  assume h: "\<not> (truthy rho \<and> truthy mu) \<and> \<not> truthy nu"
  show "Reynolds V D rho mu nu = Inl (PyException viscosity_msg)"
    using h by (auto simp add: Reynolds_def)
  show "Grashof L beta T1 T2 rho mu nu g = Inl (PyException viscosity_msg)"
    using h by (auto simp add: Grashof_def Let_def)
  show "Schmidt D mu nu rho = Inl (PyException Schmidt_msg)"
    using h by (auto simp add: Schmidt_def)
next
  assume h: "\<not> (truthy rho \<and> truthy Cp \<and> truthy k) \<and> \<not> truthy alpha"
  show "Peclet_heat V L rho Cp k alpha = Inl (PyException diffusivity_msg)"
    using h by (auto simp add: Peclet_heat_def)
  show "Fourier_heat t L rho Cp k alpha = Inl (PyException Fourier_msg)"
    using h by (auto simp add: Fourier_heat_def)
  show "Graetz_heat V D x rho Cp k alpha = Inl (PyException diffusivity_msg)"
    using h by (auto simp add: Graetz_heat_def)
  show "Lewis D' alpha Cp k rho = Inl (PyException Lewis_msg)"
    using h by (auto simp add: Lewis_def)
next
  assume "\<not> (truthy k \<and> truthy Cp \<and> truthy mu) \<and>
    \<not> (truthy nu \<and> truthy rho \<and> truthy Cp \<and> truthy k) \<and> \<not> (truthy nu \<and> truthy alpha)"
  then show "Prandtl Cp k mu nu rho alpha = Inl (PyException Prandtl_msg)"
    by (auto simp add: Prandtl_def)
qed (simp_all add: viscosity_msg_def diffusivity_msg_def Fourier_msg_def)

theorem no_route_raises_witness:
  "Reynolds 2 3 None None None = Inl (PyException viscosity_msg) \<and>
   Grashof 1 1 1 None (Some 0) (Some 1) None None = Inl (PyException viscosity_msg) \<and>
   Schmidt 2 None None None = Inl (PyException Schmidt_msg) \<and>
   Peclet_heat 2 3 None None None None = Inl (PyException diffusivity_msg) \<and>
   Fourier_heat 2 3 None None None None = Inl (PyException Fourier_msg) \<and>
   Graetz_heat 2 3 1 None None None None = Inl (PyException diffusivity_msg) \<and>
   Lewis (Some 1) None None None None = Inl (PyException Lewis_msg) \<and>
   Prandtl None None None None None None = Inl (PyException Prandtl_msg)"
  using no_route_raises [where rho = None and mu = None and nu = None and Cp = None
      and k = None and alpha = None]
    no_route_raises [where rho = "Some 0" and mu = "Some 1" and nu = None]
  by simp

text \<open>
  The claim as written fails for \<^verbatim>\<open>Schmidt(D)\<close>: its message names neither viscosity nor
  density, in words or by parameter name.
\<close>

theorem Schmidt_message_counterexample:
  "Schmidt 1 None None None =
     Inl (PyException ''Insufficient information provided for Schmidt number calculation'') \<and>
   \<not> mentions Schmidt_msg ''viscosity'' \<and>
   \<not> mentions Schmidt_msg ''density'' \<and>
   \<not> mentions Schmidt_msg ''rho'' \<and>
   \<not> mentions Schmidt_msg ''mu'' \<and>
   \<not> mentions ('' '' @ Schmidt_msg @ '' '') '' nu ''"
  by (simp add: Schmidt_def Schmidt_msg_def)

text \<open>
  C4. For every real \<open>x\<close> and each of the twelve ordered pairs of temperature scales
  among Celsius, Kelvin, Fahrenheit and Rankine, converting \<open>x\<close> from the first scale to
  the second and back returns \<open>x\<close>, in exact arithmetic; negative values and zero are
  not special.
\<close>

theorem temperature_round_trips:
  "K2C (C2K x) = x \<and> C2K (K2C x) = x \<and>
   F2C (C2F x) = x \<and> C2F (F2C x) = x \<and>
   R2C (C2R x) = x \<and> C2R (R2C x) = x \<and>
   F2K (K2F x) = x \<and> K2F (F2K x) = x \<and>
   R2K (K2R x) = x \<and> K2R (R2K x) = x \<and>
   R2F (F2R x) = x \<and> F2R (R2F x) = x"
  by (simp add: C2K_def K2C_def F2C_def C2F_def F2K_def K2F_def C2R_def K2R_def
      F2R_def R2C_def R2K_def R2F_def zero_Celsius_def field_simps)

text \<open>
  C5. For all \<open>V\<close>, \<open>L\<close> and \<open>g\<close> with \<open>g * L > 0\<close>, \<^verbatim>\<open>Froude\<close> with
  \<^verbatim>\<open>squared=True\<close> is the square of \<^verbatim>\<open>Froude\<close> with \<^verbatim>\<open>squared=False\<close>, which is
  \<open>V / sqrt (L * g)\<close>. \<^verbatim>\<open>Froude(V=1.83, L=2., g=1.63)\<close> is 1.01354..., and
  \<^verbatim>\<open>Froude(V=1.83, L=2., squared=True)\<close> at standard gravity is 0.17074....
\<close>

theorem Froude_squared:
  "(0 < L * or_default g_std g \<longrightarrow>
      Froude V L g False = Inr (PyFloat (V / sqrt (L * or_default g_std g))) \<and>
      Froude V L g True = Inr (PyFloat ((V / sqrt (L * or_default g_std g))\<^sup>2))) \<and>
   (\<exists>r. Froude 1.83 2 (Some 1.63) False = Inr (PyFloat r) \<and> 1.01354 \<le> r \<and> r < 1.01355) \<and>
   (\<exists>r. Froude 1.83 2 None True = Inr (PyFloat r) \<and> 0.17074 \<le> r \<and> r < 0.17075)"
  using Froude_pos [of L g V False] Froude_pos [of L g V True] Froude_example1 Froude_example2
  by simp

theorem Froude_squared_witness:
  "Froude 3 2 (Some 2) False = Inr (PyFloat (3 / 2)) \<and>
   Froude 3 2 (Some 2) True = Inr (PyFloat (9 / 4))"
  using Froude_squared [of 2 "Some 2" 3] by (simp add: power2_eq_square)

text \<open>
  C6. For \<open>L > 0\<close>, \<open>g > 0\<close> and \<open>rho1 > rho2\<close>, \<^verbatim>\<open>Froude_densimetric\<close> is
  \<open>V / sqrt (g * L) * sqrt (rho_num / (rho1 - rho2))\<close>, where \<open>rho_num\<close> is \<open>rho1\<close>
  when \<^verbatim>\<open>heavy\<close> is true and \<open>rho2\<close> otherwise; the square root is the principal
  complex one when its argument is negative. No validation rejects \<open>rho1 < rho2\<close>: the
  call returns there too, and with a positive \<open>rho_num\<close> the argument of the square
  root is negative and the result is imaginary.
\<close>

theorem Froude_densimetric_formula:
  "(0 < L \<and> 0 < g \<and> rho1 \<noteq> rho2 \<longrightarrow>
      (\<exists>v. Froude_densimetric V L rho1 rho2 heavy (Some g) = Inr v \<and>
         as_complex v =
           complex_of_real (V / sqrt (g * L)) *
           csqrt (complex_of_real ((if heavy then rho1 else rho2) / (rho1 - rho2))))) \<and>
   (0 < L \<and> 0 < g \<and> rho2 < rho1 \<and> 0 \<le> (if heavy then rho1 else rho2) \<longrightarrow>
      Froude_densimetric V L rho1 rho2 heavy (Some g) =
        Inr (PyFloat (V / sqrt (g * L) * sqrt ((if heavy then rho1 else rho2) / (rho1 - rho2))))) \<and>
   (0 < L \<and> 0 < g \<and> rho1 < rho2 \<and> 0 < (if heavy then rho1 else rho2) \<longrightarrow>
      (if heavy then rho1 else rho2) / (rho1 - rho2) < 0 \<and>
      Froude_densimetric V L rho1 rho2 heavy (Some g) =
        Inr (PyComplex (Complex 0
          (V / sqrt (g * L) * sqrt ((if heavy then rho1 else rho2) / (rho2 - rho1))))))"
proof (intro conjI impI)
  assume h: "0 < L \<and> 0 < g \<and> rho1 \<noteq> rho2"
  then have "Froude_densimetric V L rho1 rho2 heavy (Some g) =
    Inr (num_mul (PyFloat (V / sqrt (g * L)))
      (pow_half ((if heavy then rho1 else rho2) / (rho1 - rho2))))"
    using Froude_densimetric_value [of "Some g" L rho1 rho2 V heavy] by simp
  then show "\<exists>v. Froude_densimetric V L rho1 rho2 heavy (Some g) = Inr v \<and>
         as_complex v =
           complex_of_real (V / sqrt (g * L)) *
           csqrt (complex_of_real ((if heavy then rho1 else rho2) / (rho1 - rho2)))"
    by (simp add: as_complex_num_mul pow_half_as_complex)
next
  assume h: "0 < L \<and> 0 < g \<and> rho2 < rho1 \<and> 0 \<le> (if heavy then rho1 else rho2)"
  then have "0 \<le> (if heavy then rho1 else rho2) / (rho1 - rho2)"
    by (simp add: divide_nonneg_pos)
  then have "pow_half ((if heavy then rho1 else rho2) / (rho1 - rho2)) =
      PyFloat (sqrt ((if heavy then rho1 else rho2) / (rho1 - rho2)))"
    unfolding pow_half_def by (simp only: not_less [symmetric] if_False)
  then show "Froude_densimetric V L rho1 rho2 heavy (Some g) =
        Inr (PyFloat (V / sqrt (g * L) * sqrt ((if heavy then rho1 else rho2) / (rho1 - rho2))))"
    using h Froude_densimetric_value [of "Some g" L rho1 rho2 V heavy] by simp
next
  assume h: "0 < L \<and> 0 < g \<and> rho1 < rho2 \<and> 0 < (if heavy then rho1 else rho2)"
  then show neg: "(if heavy then rho1 else rho2) / (rho1 - rho2) < 0"
    by (simp add: divide_pos_neg)
  have "- ((if heavy then rho1 else rho2) / (rho1 - rho2)) =
      (if heavy then rho1 else rho2) / (rho2 - rho1)"
    by (metis minus_diff_eq minus_divide_right)
  then have "pow_half ((if heavy then rho1 else rho2) / (rho1 - rho2)) =
      PyComplex (Complex 0 (sqrt ((if heavy then rho1 else rho2) / (rho2 - rho1))))"
    unfolding pow_half_def using neg by (simp only: if_True)
  then show "Froude_densimetric V L rho1 rho2 heavy (Some g) =
        Inr (PyComplex (Complex 0
          (V / sqrt (g * L) * sqrt ((if heavy then rho1 else rho2) / (rho2 - rho1)))))"
    using h Froude_densimetric_value [of "Some g" L rho1 rho2 V heavy]
    by (simp add: complex_eq_iff)
qed

theorem Froude_densimetric_formula_witness:
  "Froude_densimetric 3 2 8 6 True (Some 2) = Inr (PyFloat 3) \<and>
   Froude_densimetric 3 2 8 6 False (Some 2) = Inr (PyFloat (3 / 2 * sqrt 3)) \<and>
   Froude_densimetric 3 2 4 5 True (Some 2) = Inr (PyComplex (Complex 0 3))"
proof -
  have "Froude_densimetric 3 2 8 6 True (Some 2) = Inr (PyFloat 3)"
    using Froude_densimetric_formula [of 2 2 8 6 3 True, THEN conjunct2, THEN conjunct1]
    by simp
  moreover have "Froude_densimetric 3 2 8 6 False (Some 2) = Inr (PyFloat (3 / 2 * sqrt 3))"
    using Froude_densimetric_formula [of 2 2 8 6 3 False, THEN conjunct2, THEN conjunct1]
    by simp
  moreover have "Froude_densimetric 3 2 4 5 True (Some 2) = Inr (PyComplex (Complex 0 3))"
    using Froude_densimetric_formula [of 2 2 4 5 3 True, THEN conjunct2, THEN conjunct2]
    by simp
  ultimately show ?thesis by simp
qed

text \<open>
  C7. With \<^verbatim>\<open>rho\<close> and \<^verbatim>\<open>mu\<close> absent and a nonzero \<^verbatim>\<open>nu\<close>, \<^verbatim>\<open>Grashof\<close> is
  \<open>g * beta * \<bar>T2 - T1\<bar> * L^3 / nu^2\<close>: the absolute value of the temperature
  difference is used, so exchanging \<open>T1\<close> and \<open>T2\<close> changes nothing. With truthy
  \<^verbatim>\<open>rho\<close> and \<^verbatim>\<open>mu\<close> instead of \<^verbatim>\<open>nu\<close> it is \<open>g * beta * \<bar>T2 - T1\<bar> * L^3 * rho^2 / mu^2\<close>.
  An omitted \<^verbatim>\<open>T2\<close> is 0, so the difference is \<open>\<bar>T1\<bar>\<close>. Here \<open>g\<close> is the argument
  \<^verbatim>\<open>g\<close>, standard gravity when omitted.
\<close>

theorem Grashof_formula:
  "(nu \<noteq> 0 \<longrightarrow>
      Grashof L beta T1 (Some T2) None None (Some nu) g =
        Inr (or_default g_std g * beta * \<bar>T2 - T1\<bar> * L ^ 3 / nu\<^sup>2) \<and>
      Grashof L beta T1 (Some T2) None None (Some nu) g =
        Grashof L beta T2 (Some T1) None None (Some nu) g \<and>
      Grashof L beta T1 None None None (Some nu) g =
        Inr (or_default g_std g * beta * \<bar>T1\<bar> * L ^ 3 / nu\<^sup>2)) \<and>
   (rho \<noteq> 0 \<and> mu \<noteq> 0 \<longrightarrow>
      Grashof L beta T1 (Some T2) (Some rho) (Some mu) None g =
        Inr (or_default g_std g * beta * \<bar>T2 - T1\<bar> * L ^ 3 * rho\<^sup>2 / mu\<^sup>2) \<and>
      Grashof L beta T1 (Some T2) (Some rho) (Some mu) None g =
        Grashof L beta T2 (Some T1) (Some rho) (Some mu) None g \<and>
      Grashof L beta T1 None (Some rho) (Some mu) None g =
        Inr (or_default g_std g * beta * \<bar>T1\<bar> * L ^ 3 * rho\<^sup>2 / mu\<^sup>2))"
  by (simp add: Grashof_def Let_def fdiv_def on_ok_def power_divide abs_minus_commute)

theorem Grashof_formula_witness:
  "Grashof 2 3 5 (Some 1) None None (Some 2) (Some 10) = Inr 240 \<and>
   Grashof 2 3 1 (Some 5) None None (Some 2) (Some 10) = Inr 240 \<and>
   Grashof 2 3 (- 4) None None None (Some 2) (Some 10) = Inr 240 \<and>
   Grashof 2 3 5 (Some 1) (Some 3) (Some 6) None (Some 10) = Inr 240 \<and>
   Grashof 2 3 5 (Some 1) None None (Some 2) None = Inr (g_std * 24)"
  using Grashof_formula [of 2 2 3 5 1 "Some 10" 3 6]
    Grashof_formula [of 2 2 3 "- 4" 1 "Some 10" 3 6]
    Grashof_formula [of 2 2 3 1 5 "Some 10" 3 6]
    Grashof_formula [of 2 2 3 5 1 None 3 6]
  by simp

text \<open>
  C8. \<^verbatim>\<open>dP_from_K(K=10, rho=1000, V=3)\<close> is 45000, and for all \<open>K\<close>, \<open>rho\<close>, \<open>V\<close> the
  result is \<open>0.5 * K * rho * V^2\<close>.
\<close>

theorem dP_from_K_value:
  "dP_from_K 10 1000 3 = 45000 \<and> dP_from_K K rho V = 0.5 * K * rho * V\<^sup>2"
  by (simp add: dP_from_K_def power2_eq_square)

text \<open>
  C9. \<^verbatim>\<open>nu_mu_converter(rho, mu, nu)\<close> raises exactly when both \<^verbatim>\<open>mu\<close> and \<^verbatim>\<open>nu\<close> are
  truthy, or \<^verbatim>\<open>rho\<close> is absent or zero, or neither \<^verbatim>\<open>mu\<close> nor \<^verbatim>\<open>nu\<close> is truthy.
  Otherwise it returns \<open>mu / rho\<close> when \<^verbatim>\<open>mu\<close> is truthy and \<open>nu * rho\<close> when only
  \<^verbatim>\<open>nu\<close> is. In particular a call with both viscosities nonzero, or with
  \<^verbatim>\<open>rho = 0.0\<close>, always fails.
\<close>

theorem nu_mu_converter_cases:
  "(isl (nu_mu_converter rho' mu' nu') \<longleftrightarrow>
      (truthy mu' \<and> truthy nu') \<or> \<not> truthy rho' \<or> (\<not> truthy mu' \<and> \<not> truthy nu')) \<and>
   (isl (nu_mu_converter rho' mu' nu') \<longrightarrow>
      nu_mu_converter rho' mu' nu' = Inl (PyException converter_msg)) \<and>
   (rho \<noteq> 0 \<and> mu \<noteq> 0 \<and> \<not> truthy nu' \<longrightarrow>
      nu_mu_converter (Some rho) (Some mu) nu' = Inr (Some (mu / rho))) \<and>
   (rho \<noteq> 0 \<and> nu \<noteq> 0 \<and> \<not> truthy mu' \<longrightarrow>
      nu_mu_converter (Some rho) mu' (Some nu) = Inr (Some (nu * rho))) \<and>
   (mu \<noteq> 0 \<and> nu \<noteq> 0 \<longrightarrow>
      nu_mu_converter rho' (Some mu) (Some nu) = Inl (PyException converter_msg)) \<and>
   nu_mu_converter (Some 0) mu' nu' = Inl (PyException converter_msg) \<and>
   nu_mu_converter None mu' nu' = Inl (PyException converter_msg)"
proof (intro conjI impI)
  show "isl (nu_mu_converter rho' mu' nu') \<longleftrightarrow>
      (truthy mu' \<and> truthy nu') \<or> \<not> truthy rho' \<or> (\<not> truthy mu' \<and> \<not> truthy nu')"
    by (rule nu_mu_converter_raises_iff)
  show "nu_mu_converter rho' mu' nu' = Inl (PyException converter_msg)"
    if "isl (nu_mu_converter rho' mu' nu')"
    using that by (rule nu_mu_converter_raises)
  show "nu_mu_converter (Some rho) (Some mu) nu' = Inr (Some (mu / rho))"
    if "rho \<noteq> 0 \<and> mu \<noteq> 0 \<and> \<not> truthy nu'"
    using that by (simp add: nu_mu_converter_mu)
  show "nu_mu_converter (Some rho) mu' (Some nu) = Inr (Some (nu * rho))"
    if "rho \<noteq> 0 \<and> nu \<noteq> 0 \<and> \<not> truthy mu'"
    using that by (simp add: nu_mu_converter_nu)
  show "nu_mu_converter rho' (Some mu) (Some nu) = Inl (PyException converter_msg)"
    if "mu \<noteq> 0 \<and> nu \<noteq> 0"
    using that by (simp add: nu_mu_converter_both)
  show "nu_mu_converter (Some 0) mu' nu' = Inl (PyException converter_msg)"
    by (simp add: nu_mu_converter_no_rho)
  show "nu_mu_converter None mu' nu' = Inl (PyException converter_msg)"
    by (simp add: nu_mu_converter_no_rho)
qed

theorem nu_mu_converter_cases_witness:
  "nu_mu_converter (Some 998) None (Some 2) = Inr (Some 1996) \<and>
   nu_mu_converter (Some 4) (Some 2) (Some 0) = Inr (Some (1 / 2)) \<and>
   nu_mu_converter (Some 4) (Some 2) (Some 3) = Inl (PyException converter_msg) \<and>
   nu_mu_converter (Some 0) (Some 2) None = Inl (PyException converter_msg) \<and>
   isl (nu_mu_converter (Some 4) None None)"
proof -
  note a = nu_mu_converter_cases [where rho' = "Some 4" and mu' = None and nu' = None
      and rho = 998 and nu = 2]
  note b = nu_mu_converter_cases [where rho' = "Some 4" and mu' = "Some 2" and nu' = "Some 0"
      and rho = 4 and mu = 2 and nu = 3]
  note c = nu_mu_converter_cases [where rho' = "Some 0" and mu' = "Some 2" and nu' = None]
  have "isl (nu_mu_converter (Some 4) None None)"
    using a [THEN conjunct1] by simp
  moreover have "nu_mu_converter (Some 998) None (Some 2) = Inr (Some 1996)"
    using a [THEN conjunct2, THEN conjunct2, THEN conjunct2, THEN conjunct1] by simp
  moreover have "nu_mu_converter (Some 4) (Some 2) (Some 0) = Inr (Some (1 / 2))"
    using b [THEN conjunct2, THEN conjunct2, THEN conjunct1] by simp
  moreover have "nu_mu_converter (Some 4) (Some 2) (Some 3) = Inl (PyException converter_msg)"
    using b [THEN conjunct2, THEN conjunct2, THEN conjunct2, THEN conjunct2, THEN conjunct1]
    by simp
  moreover have "nu_mu_converter (Some 0) (Some 2) None = Inl (PyException converter_msg)"
    using c [THEN conjunct2, THEN conjunct2, THEN conjunct2, THEN conjunct2, THEN conjunct2,
        THEN conjunct1]
    by simp
  ultimately show ?thesis by simp
qed

text \<open>
  C10. \<^verbatim>\<open>gravity\<close> is an even function of the latitude: for every latitude in degrees
  and every height \<open>H\<close>, \<open>gravity latitude H = gravity (- latitude) H\<close>.
\<close>

theorem gravity_even: "gravity latitude H = gravity (- latitude) H"
  by (simp add: gravity_def Let_def)

end
